theory Spec2Isabelle
  imports Main "HOL-Library.Sublist"
begin

section \<open>The SVG icon builder of \<^verbatim>\<open>icons/create_icons.py\<close>\<close>

text \<open>
  The script builds three placeholder icons as SVG text.  Its only function with any
  logic is \<^verbatim>\<open>create_svg_icon(size, add_snapshot=False)\<close> (the specification calls
  it \<^verbatim>\<open>buildIcon(size, includeBadge)\<close>): two f-string templates and one
  conditional.  Python integers are unbounded, so \<open>size\<close> is an \<^typ>\<open>int\<close>; Python
  strings are modelled as \<^typ>\<open>string\<close>, one \<^typ>\<open>char\<close> per character (the
  output is ASCII only).  The parameter is called \<open>sz\<close> here, the name \<open>size\<close>
  being taken in HOL.
\<close>

subsection \<open>Formatting an integer inside an f-string\<close>

text \<open>
  A replacement field \<^verbatim>\<open>{e}\<close> with an integer value and no format specification
  yields \<^verbatim>\<open>str(e)\<close>: the decimal digits, most significant first, with no leading
  zeros, and a leading minus sign for a negative value.  The conversion does not consult
  the locale.  \<open>str_int\<close> is the text of the conversion whenever the conversion returns;
  the one case in which it raises instead is modelled further down, in \<open>format_int\<close>.
\<close>

definition digit_char :: "nat \<Rightarrow> char" where
  "digit_char d =
     (if d = 0 then CHR ''0'' else if d = 1 then CHR ''1''
      else if d = 2 then CHR ''2'' else if d = 3 then CHR ''3''
      else if d = 4 then CHR ''4'' else if d = 5 then CHR ''5''
      else if d = 6 then CHR ''6'' else if d = 7 then CHR ''7''
      else if d = 8 then CHR ''8'' else CHR ''9'')"

fun str_nat :: "nat \<Rightarrow> string" where
  "str_nat n =
     (if n < 10 then [digit_char n] else str_nat (n div 10) @ [digit_char (n mod 10)])"

declare str_nat.simps [simp del]

definition str_int :: "int \<Rightarrow> string" where
  "str_int i = (if i < 0 then CHR ''-'' # str_nat (nat (- i)) else str_nat (nat i))"

subsection \<open>The two templates and the builder\<close>

text \<open>
  The first f-string (source lines 30 to 33): the opening tag, the background
  rectangle and the label, each on a line of its own and each line ended by a newline.
  \<^verbatim>\<open>size//2\<close> is Python's floor division, which is \<open>div\<close> on \<^typ>\<open>int\<close>.
\<close>

definition svg_open :: "int \<Rightarrow> string" where
  \<open>svg_open sz =
     ''<svg width="'' @ str_int sz @ ''" height="'' @ str_int sz
       @ ''" xmlns="http://www.w3.org/2000/svg">\<newline>''
     @ ''  <rect width="'' @ str_int sz @ ''" height="'' @ str_int sz
       @ ''" fill="#5436DA"/>\<newline>''
     @ ''  <text x="50%" y="50%" font-family="Arial, sans-serif" font-size="''
       @ str_int (sz div 2)
       @ ''" font-weight="bold" fill="white" text-anchor="middle" dominant-baseline="central">RL4</text>\<newline>''\<close>

text \<open>
  The second f-string (source lines 35 to 41), appended only under the guard: a square
  outline, three lines inside it, a circle and a triangle, all placed by subtracting
  literal offsets from \<open>size\<close>.
\<close>

definition snapshot_badge :: "int \<Rightarrow> string" where
  \<open>snapshot_badge sz =
     ''  <rect x="'' @ str_int (sz - 40) @ ''" y="'' @ str_int (sz - 40)
       @ ''" width="32" height="32" fill="none" stroke="white" stroke-width="2"/>\<newline>''
     @ ''  <line x1="'' @ str_int (sz - 36) @ ''" y1="'' @ str_int (sz - 30)
       @ ''" x2="'' @ str_int (sz - 8) @ ''" y2="'' @ str_int (sz - 30)
       @ ''" stroke="white" stroke-width="1"/>\<newline>''
     @ ''  <line x1="'' @ str_int (sz - 36) @ ''" y1="'' @ str_int (sz - 24)
       @ ''" x2="'' @ str_int (sz - 8) @ ''" y2="'' @ str_int (sz - 24)
       @ ''" stroke="white" stroke-width="1"/>\<newline>''
     @ ''  <line x1="'' @ str_int (sz - 36) @ ''" y1="'' @ str_int (sz - 18)
       @ ''" x2="'' @ str_int (sz - 8) @ ''" y2="'' @ str_int (sz - 18)
       @ ''" stroke="white" stroke-width="1"/>\<newline>''
     @ ''  <circle cx="'' @ str_int (sz - 24) @ ''" cy="'' @ str_int (sz - 52)
       @ ''" r="8" fill="none" stroke="white" stroke-width="2"/>\<newline>''
     @ ''  <polygon points="'' @ str_int (sz - 24) @ '','' @ str_int (sz - 60)
       @ '' '' @ str_int (sz - 28) @ '','' @ str_int (sz - 56)
       @ '' '' @ str_int (sz - 20) @ '','' @ str_int (sz - 56)
       @ ''" fill="white"/>\<newline>''\<close>

text \<open>
  The function itself: the local variable \<open>svg\<close> is assigned, extended under the guard
  \<^verbatim>\<open>add_snapshot and size >= 128\<close>, extended by the closing tag and returned.
\<close>

definition create_svg_icon :: "int \<Rightarrow> bool \<Rightarrow> string" where
  "create_svg_icon sz add_snapshot =
     (let svg = svg_open sz;
          svg = (if add_snapshot \<and> 128 \<le> sz then svg @ snapshot_badge sz else svg);
          svg = svg @ ''</svg>''
      in svg)"

subsection \<open>Reading the generated text\<close>

text \<open>
  The properties below speak of substrings, of elements and of attribute values.  These
  observers are not part of the script; they only read its output.  \<open>occurrences p s\<close>
  counts the positions of \<open>s\<close> at which \<open>p\<close> starts.
\<close>

fun occurrences :: "string \<Rightarrow> string \<Rightarrow> nat" where
  "occurrences p [] = (if p = [] then 1 else 0)"
| "occurrences p (c # cs) = (if prefix p (c # cs) then 1 else 0) + occurrences p cs"

text \<open>
  \<open>tags s\<close> lists the markup of \<open>s\<close> in order: every stretch from a \<open><\<close> to
  the next \<open>>\<close>, both included.  Text between tags is skipped, and a tag that is
  never closed is dropped.
\<close>

fun scan_tags :: "string option \<Rightarrow> string \<Rightarrow> string list" where
  "scan_tags None [] = []"
| "scan_tags (Some t) [] = []"
| "scan_tags None (c # cs) =
     (if c = CHR ''<'' then scan_tags (Some [c]) cs else scan_tags None cs)"
| "scan_tags (Some t) (c # cs) =
     (if c = CHR ''>'' then (t @ [c]) # scan_tags None cs
      else scan_tags (Some (t @ [c])) cs)"

definition tags :: "string \<Rightarrow> string list" where
  "tags s = scan_tags None s"

text \<open>
  A tag is an end tag (\<open></name>\<close>), an empty-element tag (\<open><name ... />\<close>) or a
  start tag; its name runs from after the \<open><\<close> (and the \<open>/\<close> of an end tag) to
  the first blank, \<open>/\<close> or \<open>>\<close>.
\<close>

definition is_end_tag :: "string \<Rightarrow> bool" where
  "is_end_tag t = prefix ''</'' t"


definition tag_name :: "string \<Rightarrow> string" where
  "tag_name t =
     takeWhile (\<lambda>c. c \<noteq> CHR '' '' \<and> c \<noteq> CHR ''/'' \<and> c \<noteq> CHR ''>'')
       (dropWhile (\<lambda>c. c = CHR ''<'' \<or> c = CHR ''/'') t)"

text \<open>
  \<open>attribute_value a t\<close> is the text between the quotes of the first \<open> a="..."\<close> in
  the tag \<open>t\<close>, if there is one; \<open>element_attribute e a s\<close> reads attribute \<open>a\<close>
  of the first element named \<open>e\<close> in the document \<open>s\<close>.
\<close>

fun strip_prefix :: "string \<Rightarrow> string \<Rightarrow> string option" where
  "strip_prefix [] s = Some s"
| "strip_prefix (p # ps) [] = None"
| "strip_prefix (p # ps) (c # cs) = (if p = c then strip_prefix ps cs else None)"

fun after_first :: "string \<Rightarrow> string \<Rightarrow> string option" where
  "after_first p [] = strip_prefix p []"
| "after_first p (c # cs) =
     (case strip_prefix p (c # cs) of Some r \<Rightarrow> Some r | None \<Rightarrow> after_first p cs)"

definition attribute_value :: "string \<Rightarrow> string \<Rightarrow> string option" where
  \<open>attribute_value a t =
     map_option (takeWhile (\<lambda>c. c \<noteq> CHR ''"'')) (after_first ('' '' @ a @ ''="'') t)\<close>

definition start_tags :: "string \<Rightarrow> string \<Rightarrow> string list" where
  "start_tags e s = filter (\<lambda>t. tag_name t = e \<and> \<not> is_end_tag t) (tags s)"

definition element_attribute :: "string \<Rightarrow> string \<Rightarrow> string \<Rightarrow> string option" where
  "element_attribute e a s =
     (case start_tags e s of [] \<Rightarrow> None | t # _ \<Rightarrow> attribute_value a t)"



text \<open>
  \<open>drop_closing_tag s\<close> is \<open>s\<close> without its last six characters, the length of the
  closing tag \<^verbatim>\<open></svg>\<close>.
\<close>

definition drop_closing_tag :: "string \<Rightarrow> string" where
  "drop_closing_tag s = take (length s - length ''</svg>'') s"

subsection \<open>The conversion that can raise\<close>









section \<open>Facts about the embedding\<close>

subsection \<open>The characters of a formatted integer\<close>

text \<open>
  A formatted integer consists of decimal digits and at most a leading minus sign, so no
  letter, quote, blank or angle bracket of the templates can come from a number.
\<close>

lemma digit_char_in: "digit_char d \<in> set ''0123456789''"
  by (simp add: digit_char_def)

lemma set_str_nat: "set (str_nat n) \<subseteq> set ''0123456789''"
proof (induction n rule: str_nat.induct)
  case (1 n)
  show ?case
  proof (cases "n < 10")
    case True
    then show ?thesis using digit_char_in [of n] by (subst str_nat.simps) simp
  next
    case False
    then show ?thesis
      using 1 digit_char_in [of "n mod 10"] by (subst str_nat.simps) simp
  qed
qed

lemma set_str_int: "set (str_int i) \<subseteq> set ''-0123456789''"
proof (cases "i < 0")
  case True
  then show ?thesis
    using set_str_nat [of "nat (- i)"] by (simp add: str_int_def subset_iff)
next
  case False
  then show ?thesis
    using set_str_nat [of "nat i"] by (simp add: str_int_def subset_iff)
qed

lemma str_int_no_char: "c \<notin> set ''-0123456789'' \<Longrightarrow> c \<notin> set (str_int i)"
  using set_str_int [of i] by blast

subsection \<open>The two shapes of the result\<close>

lemma create_svg_icon_plain:
  "\<not> (b \<and> 128 \<le> sz) \<Longrightarrow> create_svg_icon sz b = svg_open sz @ ''</svg>''"
  by (auto simp: create_svg_icon_def Let_def)

lemma create_svg_icon_badge:
  "b \<Longrightarrow> 128 \<le> sz \<Longrightarrow>
   create_svg_icon sz b = svg_open sz @ snapshot_badge sz @ ''</svg>''"
  by (simp add: create_svg_icon_def Let_def)

lemma create_svg_icon_shape:
  "create_svg_icon sz b =
     svg_open sz @ (if b \<and> 128 \<le> sz then snapshot_badge sz else []) @ ''</svg>''"
  by (simp add: create_svg_icon_def Let_def)

subsection \<open>Scanning across a formatted integer\<close>

text \<open>
  Each observer walks the text one character at a time.  A stretch of characters that
  cannot start the pattern, or cannot end a tag, is passed over unchanged; a formatted
  integer is such a stretch.
\<close>

lemma occurrences_skip:
  "c \<notin> set xs \<Longrightarrow> occurrences (c # p) (xs @ ys) = occurrences (c # p) ys"
  by (induction xs) simp_all

lemma occurrences_str_int:
  "c \<notin> set ''-0123456789'' \<Longrightarrow>
   occurrences (c # p) (str_int i @ ys) = occurrences (c # p) ys"
  by (rule occurrences_skip) (rule str_int_no_char)

lemma scan_tags_inside_skip:
  "CHR ''>'' \<notin> set xs \<Longrightarrow> scan_tags (Some t) (xs @ ys) = scan_tags (Some (t @ xs)) ys"
  by (induction xs arbitrary: t) auto

lemma scan_tags_str_int:
  "scan_tags (Some t) (str_int i @ ys) = scan_tags (Some (t @ str_int i)) ys"
  by (rule scan_tags_inside_skip) (simp add: str_int_no_char)

lemma after_first_skip:
  "c \<notin> set xs \<Longrightarrow> after_first (c # p) (xs @ ys) = after_first (c # p) ys"
  by (induction xs) auto

lemma after_first_str_int:
  "c \<notin> set ''-0123456789'' \<Longrightarrow>
   after_first (c # p) (str_int i @ ys) = after_first (c # p) ys"
  by (rule after_first_skip) (rule str_int_no_char)

lemma takeWhile_str_int:
  "c \<notin> set ''-0123456789'' \<Longrightarrow>
   takeWhile (\<lambda>x. x \<noteq> c) (str_int i @ ys) = str_int i @ takeWhile (\<lambda>x. x \<noteq> c) ys"
  using str_int_no_char [of c i] by (intro takeWhile_append2) auto

subsection \<open>The tags of the two templates\<close>

lemma tags_svg_open:
  \<open>scan_tags None (svg_open sz @ ys) =
     [''<svg width="'' @ str_int sz @ ''" height="'' @ str_int sz
        @ ''" xmlns="http://www.w3.org/2000/svg">'',
      ''<rect width="'' @ str_int sz @ ''" height="'' @ str_int sz
        @ ''" fill="#5436DA"/>'',
      ''<text x="50%" y="50%" font-family="Arial, sans-serif" font-size="''
        @ str_int (sz div 2)
        @ ''" font-weight="bold" fill="white" text-anchor="middle" dominant-baseline="central">'',
      ''</text>'']
     @ scan_tags None ys\<close>
  by (simp add: svg_open_def scan_tags_str_int)

lemma tags_snapshot_badge:
  \<open>scan_tags None (snapshot_badge sz @ ys) =
     [''<rect x="'' @ str_int (sz - 40) @ ''" y="'' @ str_int (sz - 40)
        @ ''" width="32" height="32" fill="none" stroke="white" stroke-width="2"/>'',
      ''<line x1="'' @ str_int (sz - 36) @ ''" y1="'' @ str_int (sz - 30)
        @ ''" x2="'' @ str_int (sz - 8) @ ''" y2="'' @ str_int (sz - 30)
        @ ''" stroke="white" stroke-width="1"/>'',
      ''<line x1="'' @ str_int (sz - 36) @ ''" y1="'' @ str_int (sz - 24)
        @ ''" x2="'' @ str_int (sz - 8) @ ''" y2="'' @ str_int (sz - 24)
        @ ''" stroke="white" stroke-width="1"/>'',
      ''<line x1="'' @ str_int (sz - 36) @ ''" y1="'' @ str_int (sz - 18)
        @ ''" x2="'' @ str_int (sz - 8) @ ''" y2="'' @ str_int (sz - 18)
        @ ''" stroke="white" stroke-width="1"/>'',
      ''<circle cx="'' @ str_int (sz - 24) @ ''" cy="'' @ str_int (sz - 52)
        @ ''" r="8" fill="none" stroke="white" stroke-width="2"/>'',
      ''<polygon points="'' @ str_int (sz - 24) @ '','' @ str_int (sz - 60)
        @ '' '' @ str_int (sz - 28) @ '','' @ str_int (sz - 56)
        @ '' '' @ str_int (sz - 20) @ '','' @ str_int (sz - 56)
        @ ''" fill="white"/>'']
     @ scan_tags None ys\<close>
  by (simp add: snapshot_badge_def scan_tags_str_int)

lemma start_tags_svg:
  \<open>start_tags ''svg'' (create_svg_icon sz b) =
     [''<svg width="'' @ str_int sz @ ''" height="'' @ str_int sz
        @ ''" xmlns="http://www.w3.org/2000/svg">'']\<close>
  by (simp add: start_tags_def tags_def create_svg_icon_shape tags_svg_open
        tags_snapshot_badge tag_name_def is_end_tag_def)

lemma start_tags_rect:
  \<open>start_tags ''rect'' (create_svg_icon sz b) =
     (''<rect width="'' @ str_int sz @ ''" height="'' @ str_int sz @ ''" fill="#5436DA"/>'')
     # (if b \<and> 128 \<le> sz
        then [''<rect x="'' @ str_int (sz - 40) @ ''" y="'' @ str_int (sz - 40)
               @ ''" width="32" height="32" fill="none" stroke="white" stroke-width="2"/>'']
        else [])\<close>
  by (simp add: start_tags_def tags_def create_svg_icon_shape tags_svg_open
        tags_snapshot_badge tag_name_def is_end_tag_def)

lemma start_tags_text:
  \<open>start_tags ''text'' (create_svg_icon sz b) =
     [''<text x="50%" y="50%" font-family="Arial, sans-serif" font-size="''
        @ str_int (sz div 2)
        @ ''" font-weight="bold" fill="white" text-anchor="middle" dominant-baseline="central">'']\<close>
  by (simp add: start_tags_def tags_def create_svg_icon_shape tags_svg_open
        tags_snapshot_badge tag_name_def is_end_tag_def)



subsection \<open>When the conversion raises\<close>















section \<open>The claims\<close>

subsection \<open>C1: the badge is present exactly under the guard\<close>

text \<open>
  The badge block contains the letter \<open>k\<close> (of \<open>stroke\<close>); the rest of the document
  never does, whatever the size.
\<close>

lemma k_in_badge: "CHR ''k'' \<in> set (snapshot_badge sz)"
  by (simp add: snapshot_badge_def)

lemma k_notin_open: "CHR ''k'' \<notin> set (svg_open sz)"
  by (simp add: svg_open_def str_int_no_char)

text \<open>
  Claim C1.  For every integer size and every flag, the output of
  \<^verbatim>\<open>create_svg_icon\<close> contains the badge block if and only if the flag is set and the
  size is at least 128.  Below 128 the output is the same with and without the flag; in
  particular the two outputs at size 16 are equal.
\<close>

theorem badge_iff_flag_and_large:
  "(sublist (snapshot_badge sz) (create_svg_icon sz b) \<longleftrightarrow> b \<and> 128 \<le> sz)
   \<and> (sz < 128 \<longrightarrow> create_svg_icon sz True = create_svg_icon sz False)
   \<and> create_svg_icon 16 False = create_svg_icon 16 True"
proof (intro conjI)
  show "sublist (snapshot_badge sz) (create_svg_icon sz b) \<longleftrightarrow> b \<and> 128 \<le> sz"
  proof (cases "b \<and> 128 \<le> sz")
    case True
    then have "create_svg_icon sz b = svg_open sz @ snapshot_badge sz @ ''</svg>''"
      by (simp add: create_svg_icon_badge)
    then show ?thesis using True by simp
  next
    case False
    then have out: "create_svg_icon sz b = svg_open sz @ ''</svg>''"
      by (rule create_svg_icon_plain)
    have "CHR ''k'' \<notin> set (create_svg_icon sz b)"
      using k_notin_open [of sz] by (simp add: out)
    then have "\<not> sublist (snapshot_badge sz) (create_svg_icon sz b)"
      using k_in_badge [of sz] set_mono_sublist by blast
    then show ?thesis using False by simp
  qed
  show "sz < 128 \<longrightarrow> create_svg_icon sz True = create_svg_icon sz False"
    by (simp add: create_svg_icon_def)
  show "create_svg_icon 16 False = create_svg_icon 16 True"
    by (simp add: create_svg_icon_def)
qed

text \<open>
  The theorem at sizes 127 and 128 with the flag set: no badge at 127, where the flag
  changes nothing, and the badge at 128.
\<close>

theorem badge_iff_flag_and_large_witness:
  "(sublist (snapshot_badge 127) (create_svg_icon 127 True) \<longleftrightarrow> False)
   \<and> create_svg_icon 127 True = create_svg_icon 127 False
   \<and> (sublist (snapshot_badge 128) (create_svg_icon 128 True) \<longleftrightarrow> True)"
proof -
  have small: "(127::int) < 128" "\<not> (128::int) \<le> 127" and large: "(128::int) \<le> 128"
    by simp_all
  show ?thesis
    using small large
      badge_iff_flag_and_large [of 127 True] badge_iff_flag_and_large [of 128 True]
    by blast
qed

subsection \<open>C2: the elements of the badge at size 128\<close>

text \<open>
  Claim C2.  At size 128 with the flag set the document holds, after the four tags of
  every icon, exactly the six badge elements: one \<open>rect\<close> with \<open>fill="none"\<close>, three
  \<open>line\<close> elements, one \<open>circle\<close> and one \<open>polygon\<close>.  Their coordinates are 128
  less the literal offsets 40, 36, 30, 24, 18, 8, 24, 52, 60, 56, 20 and 28 of the
  template, as the last conjunct computes; all are white, with stroke width 2 for the
  square and the circle and 1 for the lines.  At size 128 without the flag none of them
  is there: no unfilled \<open>rect\<close>, no \<open>line\<close>, \<open>circle\<close> or \<open>polygon\<close>, and no
  stroke at all.
\<close>

theorem badge_elements_at_128:
  \<open>tags (create_svg_icon 128 True) =
     [''<svg width="128" height="128" xmlns="http://www.w3.org/2000/svg">'',
      ''<rect width="128" height="128" fill="#5436DA"/>'',
      ''<text x="50%" y="50%" font-family="Arial, sans-serif" font-size="64" font-weight="bold" fill="white" text-anchor="middle" dominant-baseline="central">'',
      ''</text>'',
      ''<rect x="88" y="88" width="32" height="32" fill="none" stroke="white" stroke-width="2"/>'',
      ''<line x1="92" y1="98" x2="120" y2="98" stroke="white" stroke-width="1"/>'',
      ''<line x1="92" y1="104" x2="120" y2="104" stroke="white" stroke-width="1"/>'',
      ''<line x1="92" y1="110" x2="120" y2="110" stroke="white" stroke-width="1"/>'',
      ''<circle cx="104" cy="76" r="8" fill="none" stroke="white" stroke-width="2"/>'',
      ''<polygon points="104,68 100,72 108,72" fill="white"/>'',
      ''</svg>'']
   \<and> tags (create_svg_icon 128 False) =
     [''<svg width="128" height="128" xmlns="http://www.w3.org/2000/svg">'',
      ''<rect width="128" height="128" fill="#5436DA"/>'',
      ''<text x="50%" y="50%" font-family="Arial, sans-serif" font-size="64" font-weight="bold" fill="white" text-anchor="middle" dominant-baseline="central">'',
      ''</text>'',
      ''</svg>'']
   \<and> map length
       [filter (sublist ''fill="none"'') (start_tags ''rect'' (create_svg_icon 128 True)),
        start_tags ''line'' (create_svg_icon 128 True),
        start_tags ''circle'' (create_svg_icon 128 True),
        start_tags ''polygon'' (create_svg_icon 128 True)] = [1, 3, 1, 1]
   \<and> map length
       [filter (sublist ''fill="none"'') (start_tags ''rect'' (create_svg_icon 128 False)),
        start_tags ''line'' (create_svg_icon 128 False),
        start_tags ''circle'' (create_svg_icon 128 False),
        start_tags ''polygon'' (create_svg_icon 128 False)] = [0, 0, 0, 0]
   \<and> occurrences ''stroke'' (create_svg_icon 128 False) = 0
   \<and> map str_int
       [128 - 40, 128 - 36, 128 - 30, 128 - 24, 128 - 18, 128 - 8,
        128 - 24, 128 - 52, 128 - 60, 128 - 56, 128 - 20, 128 - 28] =
       [''88'', ''92'', ''98'', ''104'', ''110'', ''120'',
        ''104'', ''76'', ''68'', ''72'', ''108'', ''100'']\<close>
  by code_simp

subsection \<open>C3: how the document starts and ends\<close>

text \<open>
  Claim C3.  For every positive size and every flag the result starts with
  \<^verbatim>\<open><svg width="{size}" height="{size}"\<close>, the size in decimal, and ends with
  \<^verbatim>\<open></svg>\<close>.  (The proof does not use that the size is positive.)
\<close>

theorem starts_with_svg_tag_ends_with_close:
  assumes "0 < sz"
  shows \<open>prefix (''<svg width="'' @ str_int sz @ ''" height="'' @ str_int sz @ ''"'')
           (create_svg_icon sz b)
         \<and> suffix ''</svg>'' (create_svg_icon sz b)\<close>
proof
  show \<open>prefix (''<svg width="'' @ str_int sz @ ''" height="'' @ str_int sz @ ''"'')
          (create_svg_icon sz b)\<close>
    by (simp add: create_svg_icon_shape svg_open_def)
  have "create_svg_icon sz b =
      (svg_open sz @ (if b \<and> 128 \<le> sz then snapshot_badge sz else [])) @ ''</svg>''"
    by (simp add: create_svg_icon_shape)
  then show "suffix ''</svg>'' (create_svg_icon sz b)"
    by (simp only: suffix_def) blast
qed

text \<open>
  The theorem at size 48, where the decimal rendering is \<open>48\<close>.
\<close>

theorem starts_with_svg_tag_ends_with_close_witness:
  \<open>prefix ''<svg width="48" height="48"'' (create_svg_icon 48 False)
   \<and> suffix ''</svg>'' (create_svg_icon 48 False)\<close>
proof -
  have pos: "(0::int) < 48" by simp
  have s: "str_int 48 = ''48''" by code_simp
  show ?thesis
    using starts_with_svg_tag_ends_with_close [OF pos, of False] by (simp add: s)
qed

subsection \<open>C4: the font size is half the size, rounded down\<close>

lemma font_size_of_text:
  "element_attribute ''text'' ''font-size'' (create_svg_icon sz b) = Some (str_int (sz div 2))"
  by (simp add: element_attribute_def start_tags_text attribute_value_def
        after_first_str_int takeWhile_str_int)

lemma font_size_once:
  \<open>occurrences ''font-size="'' (create_svg_icon sz b) = 1\<close>
proof -
  have o: \<open>occurrences ''font-size="'' (svg_open sz @ ys) = 1 + occurrences ''font-size="'' ys\<close>
    for ys by (simp add: svg_open_def occurrences_str_int)
  have bd: \<open>occurrences ''font-size="'' (snapshot_badge sz @ ys) = occurrences ''font-size="'' ys\<close>
    for ys by (simp add: snapshot_badge_def occurrences_str_int)
  show ?thesis by (simp add: create_svg_icon_shape o bd)
qed

text \<open>
  Claim C4.  For every positive size the \<open>font-size\<close> attribute of the \<open>text\<close>
  element is the decimal rendering of \<open>size div 2\<close>, the floor of half the size.
  There is one \<open>text\<close> element and one \<open>font-size\<close> attribute in the document.  At
  size 48 the value is \<open>24\<close>, at size 17 it is \<open>8\<close>.
\<close>

theorem font_size_is_half_size:
  assumes "0 < sz"
  shows \<open>element_attribute ''text'' ''font-size'' (create_svg_icon sz b) = Some (str_int (sz div 2))
    \<and> length (start_tags ''text'' (create_svg_icon sz b)) = 1
    \<and> occurrences ''font-size="'' (create_svg_icon sz b) = 1
    \<and> element_attribute ''text'' ''font-size'' (create_svg_icon 48 b) = Some ''24''
    \<and> element_attribute ''text'' ''font-size'' (create_svg_icon 17 b) = Some ''8''\<close>
proof -
  have "str_int (48 div 2) = ''24''" and "str_int (17 div 2) = ''8''"
    by code_simp+
  then show ?thesis
    by (simp add: font_size_of_text start_tags_text font_size_once)
qed

text \<open>
  The theorem at size 7, where the value is \<open>3\<close>, with its two fixed sizes.
\<close>

theorem font_size_is_half_size_witness:
  \<open>element_attribute ''text'' ''font-size'' (create_svg_icon 7 True) = Some ''3''
   \<and> element_attribute ''text'' ''font-size'' (create_svg_icon 48 True) = Some ''24''
   \<and> element_attribute ''text'' ''font-size'' (create_svg_icon 17 True) = Some ''8''\<close>
proof -
  have pos: "(0::int) < 7" by simp
  have s: "str_int 3 = ''3''" by code_simp
  show ?thesis
    using font_size_is_half_size [OF pos, of True] by (simp add: s)
qed

subsection \<open>C5: the label occurs once\<close>

lemma rl4_in_svg_open:
  "occurrences ''RL4'' (svg_open sz @ ys) = 1 + occurrences ''RL4'' ys"
  by (simp add: svg_open_def occurrences_str_int)

lemma rl4_in_snapshot_badge:
  "occurrences ''RL4'' (snapshot_badge sz @ ys) = occurrences ''RL4'' ys"
  by (simp add: snapshot_badge_def occurrences_str_int)

text \<open>
  Claim C5.  For every positive size and every flag the text \<open>RL4\<close> occurs exactly
  once in the result: once in the first template, never in the badge, never in a number.
\<close>

theorem rl4_exactly_once:
  assumes "0 < sz"
  shows "occurrences ''RL4'' (create_svg_icon sz b) = 1"
  by (simp add: create_svg_icon_shape rl4_in_svg_open rl4_in_snapshot_badge)

text \<open>
  The theorem at sizes 128, with the badge, and 16, without.
\<close>

theorem rl4_exactly_once_witness:
  "occurrences ''RL4'' (create_svg_icon 128 True) = 1
   \<and> occurrences ''RL4'' (create_svg_icon 16 False) = 1"
proof -
  have "(0::int) < 128" and "(0::int) < 16" by simp_all
  then show ?thesis
    using rl4_exactly_once [of 128 True] rl4_exactly_once [of 16 False] by simp
qed

subsection \<open>C6: the background rectangle\<close>

text \<open>
  Claim C6.  For every positive size and every flag the result contains the element
  \<^verbatim>\<open><rect width="{size}" height="{size}" fill="#5436DA"/>\<close>.  It is the first
  \<open>rect\<close> of the document; its width and height are the size, which are also the width
  and height of the \<open>svg\<close> element, its fill is \<open>#5436DA\<close>, and it has no \<open>x\<close>
  and no \<open>y\<close> attribute, so it starts at the origin and covers the canvas.
\<close>

theorem background_rect_fills_canvas:
  assumes "0 < sz"
  shows \<open>sublist (''<rect width="'' @ str_int sz @ ''" height="'' @ str_int sz
                    @ ''" fill="#5436DA"/>'') (create_svg_icon sz b)
    \<and> element_attribute ''rect'' ''width'' (create_svg_icon sz b) = Some (str_int sz)
    \<and> element_attribute ''rect'' ''height'' (create_svg_icon sz b) = Some (str_int sz)
    \<and> element_attribute ''rect'' ''fill'' (create_svg_icon sz b) = Some ''#5436DA''
    \<and> element_attribute ''rect'' ''x'' (create_svg_icon sz b) = None
    \<and> element_attribute ''rect'' ''y'' (create_svg_icon sz b) = None
    \<and> element_attribute ''svg'' ''width'' (create_svg_icon sz b) = Some (str_int sz)
    \<and> element_attribute ''svg'' ''height'' (create_svg_icon sz b) = Some (str_int sz)\<close>
proof (intro conjI)
  have \<open>create_svg_icon sz b =
      (''<svg width="'' @ str_int sz @ ''" height="'' @ str_int sz
        @ ''" xmlns="http://www.w3.org/2000/svg">\<newline>  '')
      @ (''<rect width="'' @ str_int sz @ ''" height="'' @ str_int sz @ ''" fill="#5436DA"/>'')
      @ (''\<newline>  <text x="50%" y="50%" font-family="Arial, sans-serif" font-size="''
        @ str_int (sz div 2)
        @ ''" font-weight="bold" fill="white" text-anchor="middle" dominant-baseline="central">RL4</text>\<newline>''
        @ (if b \<and> 128 \<le> sz then snapshot_badge sz else []) @ ''</svg>'')\<close>
    by (simp add: create_svg_icon_shape svg_open_def)
  then show \<open>sublist (''<rect width="'' @ str_int sz @ ''" height="'' @ str_int sz
                    @ ''" fill="#5436DA"/>'') (create_svg_icon sz b)\<close>
    by (simp only: sublist_appendI)
qed (simp_all add: element_attribute_def start_tags_rect start_tags_svg attribute_value_def
        after_first_str_int takeWhile_str_int)

text \<open>
  The theorem at size 48.
\<close>

theorem background_rect_fills_canvas_witness:
  \<open>sublist ''<rect width="48" height="48" fill="#5436DA"/>'' (create_svg_icon 48 False)
   \<and> element_attribute ''rect'' ''width'' (create_svg_icon 48 False) = Some ''48''
   \<and> element_attribute ''rect'' ''height'' (create_svg_icon 48 False) = Some ''48''
   \<and> element_attribute ''rect'' ''fill'' (create_svg_icon 48 False) = Some ''#5436DA''\<close>
proof -
  have pos: "(0::int) < 48" by simp
  have s: "str_int 48 = ''48''" by code_simp
  show ?thesis
    using background_rect_fills_canvas [OF pos, of False] by (simp add: s)
qed

subsection \<open>C7: what the result depends on\<close>




subsection \<open>C8: for which sizes there is a result\<close>





subsection \<open>C9: the badge is inserted before the closing tag\<close>

text \<open>
  Claim C9.  For every size of at least 128, the result with the flag set is the result
  without the flag with the badge block inserted just before the closing tag.  So the
  result without the flag, less its closing tag, is a prefix of the result with the
  flag.
\<close>

theorem badge_inserted_before_close:
  assumes "128 \<le> sz"
  shows "create_svg_icon sz False = drop_closing_tag (create_svg_icon sz False) @ ''</svg>''
    \<and> create_svg_icon sz True =
        drop_closing_tag (create_svg_icon sz False) @ snapshot_badge sz @ ''</svg>''
    \<and> prefix (drop_closing_tag (create_svg_icon sz False)) (create_svg_icon sz True)"
proof -
  have f: "create_svg_icon sz False = svg_open sz @ ''</svg>''"
    by (simp add: create_svg_icon_plain)
  have t: "create_svg_icon sz True = svg_open sz @ snapshot_badge sz @ ''</svg>''"
    using assms by (simp add: create_svg_icon_badge)
  have stem: "drop_closing_tag (create_svg_icon sz False) = svg_open sz"
    by (simp add: drop_closing_tag_def f)
  show ?thesis
    by (simp only: stem) (simp add: f t)
qed

text \<open>
  The theorem at size 128.
\<close>

theorem badge_inserted_before_close_witness:
  "create_svg_icon 128 True =
     drop_closing_tag (create_svg_icon 128 False) @ snapshot_badge 128 @ ''</svg>''
   \<and> prefix (drop_closing_tag (create_svg_icon 128 False)) (create_svg_icon 128 True)"
proof -
  have large: "(128::int) \<le> 128" by simp
  show ?thesis
    using badge_inserted_before_close [OF large] by simp
qed

subsection \<open>C10: the namespace attribute\<close>

text \<open>
  Claim C10.  For every integer size and every flag the result starts with the opening
  tag \<^verbatim>\<open><svg width="{size}" height="{size}" xmlns="http://www.w3.org/2000/svg">\<close>,
  and the \<open>xmlns\<close> attribute of the \<open>svg\<close> element is
  \<^verbatim>\<open>http://www.w3.org/2000/svg\<close>.
\<close>

theorem svg_tag_has_namespace:
  \<open>prefix (''<svg width="'' @ str_int sz @ ''" height="'' @ str_int sz
             @ ''" xmlns="http://www.w3.org/2000/svg">'') (create_svg_icon sz b)
   \<and> element_attribute ''svg'' ''xmlns'' (create_svg_icon sz b)
       = Some ''http://www.w3.org/2000/svg''\<close>
proof
  show \<open>prefix (''<svg width="'' @ str_int sz @ ''" height="'' @ str_int sz
             @ ''" xmlns="http://www.w3.org/2000/svg">'') (create_svg_icon sz b)\<close>
    by (simp add: create_svg_icon_shape svg_open_def)
  show \<open>element_attribute ''svg'' ''xmlns'' (create_svg_icon sz b)
       = Some ''http://www.w3.org/2000/svg''\<close>
    by (simp add: element_attribute_def start_tags_svg attribute_value_def
          after_first_str_int takeWhile_str_int)
qed

end
